theory Spec2Isabelle
  imports Main "HOL-Library.Sublist"
begin

section \<open>The configuration repository of bluemix/configuration/core\_config\<close>

text \<open>
  A shallow embedding of \<^verbatim>\<open>bx_config.go\<close>. Go strings are byte sequences and are
  modelled as \<^typ>\<open>string\<close>. The reader/writer lock is taken and released by every
  operation and is not part of the sequential model: each operation below is one
  critical section. \<^verbatim>\<open>createBluemixConfigFromPath\<close> only builds a disk persistor, which
  is not among the sources, and passes it on.
\<close>

subsection \<open>Values held by the raw map\<close>

text \<open>
  \<^verbatim>\<open>type raw map[string]interface{}\<close>. The dynamic values are strings, integers,
  booleans, slices and nested maps; a nested map is kept as an association list. A Go
  map can be \<^verbatim>\<open>nil\<close>: reading a nil map finds nothing, assigning to it panics, so
  the raw map is an option.
\<close>

datatype gvalue =
    GNil
  | GBool bool
  | GInt int
  | GString string
  | GSlice "gvalue list"
  | GMap "(string \<times> gvalue) list"

type_synonym raw = "(string \<rightharpoonup> gvalue) option"

subsection \<open>The domain model\<close>

text \<open>
  Modelled from the spec: the package \<^verbatim>\<open>bluemix/models\<close> is not among the sources.
  The spec describes an account as a structured value with a GUID, a resource group as
  GUID and name, a plugin repository as name and URL, and a region as id, display name
  and type.
\<close>

record models_Account =
  Account_GUID :: string

record models_ResourceGroup =
  ResourceGroup_GUID :: string
  ResourceGroup_Name :: string

record models_PluginRepo =
  PluginRepo_Name :: string
  PluginRepo_URL :: string

record models_Region =
  Region_ID :: string
  Region_Name :: string
  Region_Type :: string

text \<open>The zero values \<^verbatim>\<open>models.Account{}\<close>, \<^verbatim>\<open>models.ResourceGroup{}\<close>, \<^verbatim>\<open>models.PluginRepo{}\<close>.\<close>

definition zero_Account :: models_Account where
  "zero_Account = \<lparr>Account_GUID = []\<rparr>"

definition zero_ResourceGroup :: models_ResourceGroup where
  "zero_ResourceGroup = \<lparr>ResourceGroup_GUID = [], ResourceGroup_Name = []\<rparr>"

definition zero_PluginRepo :: models_PluginRepo where
  "zero_PluginRepo = \<lparr>PluginRepo_Name = [], PluginRepo_URL = []\<rparr>"

subsection \<open>The typed document\<close>

text \<open>
  \<^verbatim>\<open>type BXConfigData struct\<close>, field by field. A slice can be \<^verbatim>\<open>nil\<close>, so
  \<^verbatim>\<open>PluginRepos\<close> is an option; \<open>slice_elems\<close> reads the elements, as \<^verbatim>\<open>range\<close>
  and \<^verbatim>\<open>len\<close> do. No arithmetic is done on \<^verbatim>\<open>HTTPTimeout\<close>.
\<close>

record BXConfigData =
  ConsoleEndpoint :: string
  Region :: string
  RegionID :: string
  RegionType :: string
  IAMEndpoint :: string
  IAMID :: string
  IAMToken :: string
  IAMRefreshToken :: string
  Account :: models_Account
  ResourceGroup :: models_ResourceGroup
  PluginRepos :: "models_PluginRepo list option"
  Locale :: string
  Trace :: string
  ColorEnabled :: string
  HTTPTimeout :: int
  CLIInfoEndpoint :: string
  CheckCLIVersionDisabled :: bool
  UsageStatsDisabled :: bool
  raw :: raw

definition slice_elems :: "'a list option \<Rightarrow> 'a list" where
  "slice_elems s = (case s of None \<Rightarrow> [] | Some xs \<Rightarrow> xs)"

definition NewBXConfigData :: BXConfigData where
  "NewBXConfigData =
     \<lparr>ConsoleEndpoint = [], Region = [], RegionID = [], RegionType = [],
      IAMEndpoint = [], IAMID = [], IAMToken = [], IAMRefreshToken = [],
      Account = zero_Account, ResourceGroup = zero_ResourceGroup, PluginRepos = None,
      Locale = [], Trace = [], ColorEnabled = [], HTTPTimeout = 0,
      CLIInfoEndpoint = [], CheckCLIVersionDisabled = False, UsageStatsDisabled = False,
      raw = Some Map.empty\<rparr>"

subsection \<open>\<^verbatim>\<open>structs.Map\<close>\<close>

text \<open>
  Modelled from the spec: the package \<^verbatim>\<open>github.com/fatih/structs\<close> is not among the
  sources. The spec has the raw map regenerated from the current document on a full
  write, so that all known fields stay consistent. \<^verbatim>\<open>structs.Map(c.data)\<close> builds a
  fresh map with one key per exported field, named as the field; the unexported field
  \<^verbatim>\<open>raw\<close> is skipped. A nested struct becomes a nested map.
\<close>

definition Account_value :: "models_Account \<Rightarrow> gvalue" where
  "Account_value a = GMap [(''GUID'', GString (Account_GUID a))]"

definition ResourceGroup_value :: "models_ResourceGroup \<Rightarrow> gvalue" where
  "ResourceGroup_value g =
     GMap [(''GUID'', GString (ResourceGroup_GUID g)), (''Name'', GString (ResourceGroup_Name g))]"

definition PluginRepo_value :: "models_PluginRepo \<Rightarrow> gvalue" where
  "PluginRepo_value r =
     GMap [(''Name'', GString (PluginRepo_Name r)), (''URL'', GString (PluginRepo_URL r))]"

definition PluginRepos_value :: "models_PluginRepo list option \<Rightarrow> gvalue" where
  "PluginRepos_value s = (case s of None \<Rightarrow> GNil | Some rs \<Rightarrow> GSlice (map PluginRepo_value rs))"

definition struct_fields :: "BXConfigData \<Rightarrow> (string \<times> gvalue) list" where
  "struct_fields d =
     [(''ConsoleEndpoint'', GString (ConsoleEndpoint d)),
      (''Region'', GString (Region d)),
      (''RegionID'', GString (RegionID d)),
      (''RegionType'', GString (RegionType d)),
      (''IAMEndpoint'', GString (IAMEndpoint d)),
      (''IAMID'', GString (IAMID d)),
      (''IAMToken'', GString (IAMToken d)),
      (''IAMRefreshToken'', GString (IAMRefreshToken d)),
      (''Account'', Account_value (Account d)),
      (''ResourceGroup'', ResourceGroup_value (ResourceGroup d)),
      (''PluginRepos'', PluginRepos_value (PluginRepos d)),
      (''Locale'', GString (Locale d)),
      (''Trace'', GString (Trace d)),
      (''ColorEnabled'', GString (ColorEnabled d)),
      (''HTTPTimeout'', GInt (HTTPTimeout d)),
      (''CLIInfoEndpoint'', GString (CLIInfoEndpoint d)),
      (''CheckCLIVersionDisabled'', GBool (CheckCLIVersionDisabled d)),
      (''UsageStatsDisabled'', GBool (UsageStatsDisabled d))]"

definition structs_Map :: "BXConfigData \<Rightarrow> (string \<rightharpoonup> gvalue)" where
  "structs_Map d = map_of (struct_fields d)"

text \<open>The names of the exported fields, in declaration order.\<close>

definition known_fields :: "string list" where
  "known_fields =
     [''ConsoleEndpoint'', ''Region'', ''RegionID'', ''RegionType'', ''IAMEndpoint'',
      ''IAMID'', ''IAMToken'', ''IAMRefreshToken'', ''Account'', ''ResourceGroup'',
      ''PluginRepos'', ''Locale'', ''Trace'', ''ColorEnabled'', ''HTTPTimeout'',
      ''CLIInfoEndpoint'', ''CheckCLIVersionDisabled'', ''UsageStatsDisabled'']"

subsection \<open>The persistor, the error handler and the repository\<close>

text \<open>
  Modelled from the spec: the interface \<^verbatim>\<open>configuration.Persistor\<close> is not among the
  sources. The spec gives it as \<^verbatim>\<open>Load(dest) error\<close> and \<^verbatim>\<open>Save(src) error\<close>. An
  implementation is any pair of functions over a state \<open>'p\<close> of its own (the disk, or
  the memory of a test double). \<^verbatim>\<open>Load\<close> receives the pointer to the document and may
  fill it; \<^verbatim>\<open>Save\<close> receives either the document or the raw map.
\<close>

type_synonym error = string

datatype saved = SavedData BXConfigData | SavedRaw raw

record 'p Persistor =
  Load :: "'p \<Rightarrow> BXConfigData \<Rightarrow> error option \<times> BXConfigData \<times> 'p"
  Save :: "'p \<Rightarrow> saved \<Rightarrow> error option \<times> 'p"

text \<open>
  A Go call either returns or panics. The handler \<^verbatim>\<open>onError func(error)\<close> is supplied
  by the process; the one of \<^verbatim>\<open>plugin.GetPluginContext\<close> panics, another may return.
\<close>

datatype 'a result = Returned 'a | Panicked string

text \<open>
  The calls that leave the repository are recorded in \<open>events\<close>, in order, as a test
  double counting its calls would.
\<close>

datatype event = LoadCalled | SaveCalled saved | OnErrorCalled error

record 'p bxConfigRepository =
  data :: BXConfigData
  persistor :: "'p Persistor"
  pstate :: 'p
  initOnce :: bool
  onError :: "error \<Rightarrow> unit result"
  events :: "event list"

definition createBluemixConfigFromPersistor ::
  "'p Persistor \<Rightarrow> 'p \<Rightarrow> (error \<Rightarrow> unit result) \<Rightarrow> 'p bxConfigRepository" where
  "createBluemixConfigFromPersistor p ps errHandler =
     \<lparr>data = NewBXConfigData, persistor = p, pstate = ps, initOnce = False,
      onError = errHandler, events = []\<rparr>"

text \<open>Calling the handler: the call is recorded, and its outcome is the handler's.\<close>

definition call_onError :: "error \<Rightarrow> 'p bxConfigRepository \<Rightarrow> unit result \<times> 'p bxConfigRepository" where
  "call_onError err c = (onError c err, c\<lparr>events := events c @ [OnErrorCalled err]\<rparr>)"

text \<open>
  \<^verbatim>\<open>init\<close>: \<^verbatim>\<open>sync.Once\<close> runs the function the first time only, and counts the run
  as done also when the function panics.
\<close>

definition init :: "'p bxConfigRepository \<Rightarrow> unit result \<times> 'p bxConfigRepository" where
  "init c =
     (if initOnce c then (Returned (), c)
      else
        (case Load (persistor c) (pstate c) (data c) of
           (err, d, ps) \<Rightarrow>
             (let c1 = c\<lparr>data := d, pstate := ps, initOnce := True,
                         events := events c @ [LoadCalled]\<rparr>
              in case err of
                   None \<Rightarrow> (Returned (), c1)
                 | Some e \<Rightarrow> call_onError e c1)))"

definition read :: "(BXConfigData \<Rightarrow> 'a) \<Rightarrow> 'p bxConfigRepository \<Rightarrow> 'a result \<times> 'p bxConfigRepository" where
  "read cb c =
     (case init c of
        (Panicked m, c1) \<Rightarrow> (Panicked m, c1)
      | (Returned u, c1) \<Rightarrow> (Returned (cb (data c1)), c1))"

text \<open>
  A mutation \<^verbatim>\<open>cb\<close> changes the document and returns, or panics part of the way
  with the changes it had made.
\<close>

type_synonym mutation = "BXConfigData \<Rightarrow> unit result \<times> BXConfigData"

definition save_and_report :: "saved \<Rightarrow> 'p bxConfigRepository \<Rightarrow> unit result \<times> 'p bxConfigRepository" where
  "save_and_report src c =
     (case Save (persistor c) (pstate c) src of
        (err, ps) \<Rightarrow>
          (let c1 = c\<lparr>pstate := ps, events := events c @ [SaveCalled src]\<rparr>
           in case err of
                None \<Rightarrow> (Returned (), c1)
              | Some e \<Rightarrow> call_onError e c1))"

text \<open>\<^verbatim>\<open>write\<close>, named \<open>write_full\<close> here (\<open>write\<close> is a keyword of the prover).\<close>

definition write_full :: "mutation \<Rightarrow> 'p bxConfigRepository \<Rightarrow> unit result \<times> 'p bxConfigRepository" where
  "write_full cb c =
     (case init c of
        (Panicked m, c1) \<Rightarrow> (Panicked m, c1)
      | (Returned u, c1) \<Rightarrow>
          (case cb (data c1) of
             (Panicked m, d) \<Rightarrow> (Panicked m, c1\<lparr>data := d\<rparr>)
           | (Returned u', d) \<Rightarrow>
               (let d' = d\<lparr>raw := Some (structs_Map d)\<rparr>
                in save_and_report (SavedData d') (c1\<lparr>data := d'\<rparr>))))"

definition writeRaw :: "mutation \<Rightarrow> 'p bxConfigRepository \<Rightarrow> unit result \<times> 'p bxConfigRepository" where
  "writeRaw cb c =
     (case init c of
        (Panicked m, c1) \<Rightarrow> (Panicked m, c1)
      | (Returned u, c1) \<Rightarrow>
          (case cb (data c1) of
             (Panicked m, d) \<Rightarrow> (Panicked m, c1\<lparr>data := d\<rparr>)
           | (Returned u', d) \<Rightarrow> save_and_report (SavedRaw (raw d)) (c1\<lparr>data := d\<rparr>)))"

subsection \<open>Functions of the package \<^verbatim>\<open>strings\<close>\<close>

text \<open>
  \<^verbatim>\<open>strings.Split(s, ":")\<close> cuts at every separator byte and keeps empty pieces: the
  empty string gives one empty piece. \<^verbatim>\<open>strings.HasPrefix\<close> compares the first bytes.
\<close>

fun Split :: "string \<Rightarrow> char \<Rightarrow> string list" where
  "Split [] sep = [[]]"
| "Split (x # xs) sep =
     (if x = sep then [] # Split xs sep
      else (case Split xs sep of [] \<Rightarrow> [[x]] | w # ws \<Rightarrow> (x # w) # ws))"

definition HasPrefix :: "string \<Rightarrow> string \<Rightarrow> bool" where
  "HasPrefix s p = (take (length p) s = p)"

text \<open>
  \<^verbatim>\<open>strings.EqualFold\<close> and \<^verbatim>\<open>strings.ToLower\<close> follow the Unicode case tables of the
  Go library, which are no part of the repository. The operations that call them take
  them as parameters. On bytes below 128 both reduce to the mapping of \<^verbatim>\<open>A\<close>..\<^verbatim>\<open>Z\<close> to
  \<^verbatim>\<open>a\<close>..\<^verbatim>\<open>z\<close>, given here for concrete inputs.
\<close>

definition ascii_lower :: "char \<Rightarrow> char" where
  "ascii_lower ch =
     (let n = (of_char ch :: nat) in if 65 \<le> n \<and> n \<le> 90 then char_of (n + 32) else ch)"


definition ascii_EqualFold :: "string \<Rightarrow> string \<Rightarrow> bool" where
  "ascii_EqualFold s t = (map ascii_lower s = map ascii_lower t)"

subsection \<open>Getters\<close>

text \<open>
  A getter whose name is also the name of the field it reads carries the suffix
  \<open>_get\<close>. \<^verbatim>\<open>IAMID\<close> and \<^verbatim>\<open>IMSAccountID\<close> decode the token with \<^verbatim>\<open>NewIAMTokenInfo\<close>,
  which is not among the sources; they read the repository through \<^verbatim>\<open>IAMToken()\<close>.
\<close>

definition ConsoleEndpoint_get :: "'p bxConfigRepository \<Rightarrow> string result \<times> 'p bxConfigRepository" where
  "ConsoleEndpoint_get c = read ConsoleEndpoint c"

definition Region_get :: "'p bxConfigRepository \<Rightarrow> models_Region result \<times> 'p bxConfigRepository" where
  "Region_get c =
     read (\<lambda>d. \<lparr>Region_ID = RegionID d, Region_Name = Region d, Region_Type = RegionType d\<rparr>) c"

text \<open>The body of \<^verbatim>\<open>CloudName\<close> once the region id is read.\<close>

definition CloudName_of :: "string \<Rightarrow> string" where
  "CloudName_of regionID =
     (if regionID = [] then []
      else
        (let splits = Split regionID CHR '':'' in
         if length splits \<noteq> 3 then []
         else
           (let customer = splits ! 0 in
            if customer \<noteq> ''ibm'' then customer
            else
              (let deployment = splits ! 1 in
               if deployment = ''yp'' then ''bluemix''
               else if HasPrefix deployment ''ys'' then ''staging''
               else []))))"

definition CloudName :: "'p bxConfigRepository \<Rightarrow> string result \<times> 'p bxConfigRepository" where
  "CloudName c =
     (case Region_get c of
        (Panicked m, c1) \<Rightarrow> (Panicked m, c1)
      | (Returned region, c1) \<Rightarrow> (Returned (CloudName_of (Region_ID region)), c1))"

definition CloudType :: "'p bxConfigRepository \<Rightarrow> string result \<times> 'p bxConfigRepository" where
  "CloudType c =
     (case Region_get c of
        (Panicked m, c1) \<Rightarrow> (Panicked m, c1)
      | (Returned region, c1) \<Rightarrow> (Returned (Region_Type region), c1))"

definition IAMEndpoint_get :: "'p bxConfigRepository \<Rightarrow> string result \<times> 'p bxConfigRepository" where
  "IAMEndpoint_get c = read IAMEndpoint c"

definition IAMToken_get :: "'p bxConfigRepository \<Rightarrow> string result \<times> 'p bxConfigRepository" where
  "IAMToken_get c = read IAMToken c"

definition IAMRefreshToken_get :: "'p bxConfigRepository \<Rightarrow> string result \<times> 'p bxConfigRepository" where
  "IAMRefreshToken_get c = read IAMRefreshToken c"

definition Account_get :: "'p bxConfigRepository \<Rightarrow> models_Account result \<times> 'p bxConfigRepository" where
  "Account_get c = read Account c"

definition HasAccount :: "'p bxConfigRepository \<Rightarrow> bool result \<times> 'p bxConfigRepository" where
  "HasAccount c =
     (case Account_get c of
        (Panicked m, c1) \<Rightarrow> (Panicked m, c1)
      | (Returned a, c1) \<Rightarrow> (Returned (Account_GUID a \<noteq> []), c1))"

definition ResourceGroup_get :: "'p bxConfigRepository \<Rightarrow> models_ResourceGroup result \<times> 'p bxConfigRepository" where
  "ResourceGroup_get c = read ResourceGroup c"

definition HasResourceGroup :: "'p bxConfigRepository \<Rightarrow> bool result \<times> 'p bxConfigRepository" where
  "HasResourceGroup c =
     read (\<lambda>d. ResourceGroup_GUID (ResourceGroup d) \<noteq> [] \<and> ResourceGroup_Name (ResourceGroup d) \<noteq> []) c"




definition Locale_get :: "'p bxConfigRepository \<Rightarrow> string result \<times> 'p bxConfigRepository" where
  "Locale_get c = read Locale c"

definition Trace_get :: "'p bxConfigRepository \<Rightarrow> string result \<times> 'p bxConfigRepository" where
  "Trace_get c = read Trace c"

definition ColorEnabled_get :: "'p bxConfigRepository \<Rightarrow> string result \<times> 'p bxConfigRepository" where
  "ColorEnabled_get c = read ColorEnabled c"

definition HTTPTimeout_get :: "'p bxConfigRepository \<Rightarrow> int result \<times> 'p bxConfigRepository" where
  "HTTPTimeout_get c = read HTTPTimeout c"

definition CLIInfoEndpoint_get :: "'p bxConfigRepository \<Rightarrow> string result \<times> 'p bxConfigRepository" where
  "CLIInfoEndpoint_get c = read CLIInfoEndpoint c"

definition CheckCLIVersionDisabled_get :: "'p bxConfigRepository \<Rightarrow> bool result \<times> 'p bxConfigRepository" where
  "CheckCLIVersionDisabled_get c = read CheckCLIVersionDisabled c"

definition UsageStatsDisabled_get :: "'p bxConfigRepository \<Rightarrow> bool result \<times> 'p bxConfigRepository" where
  "UsageStatsDisabled_get c = read UsageStatsDisabled c"

subsection \<open>Setters\<close>

definition ok :: "BXConfigData \<Rightarrow> unit result \<times> BXConfigData" where
  "ok d = (Returned (), d)"

definition SetConsoleEndpoint :: "string \<Rightarrow> 'p bxConfigRepository \<Rightarrow> unit result \<times> 'p bxConfigRepository" where
  "SetConsoleEndpoint endpoint c = write_full (\<lambda>d. ok (d\<lparr>ConsoleEndpoint := endpoint\<rparr>)) c"

definition SetRegion :: "models_Region \<Rightarrow> 'p bxConfigRepository \<Rightarrow> unit result \<times> 'p bxConfigRepository" where
  "SetRegion region c =
     write_full (\<lambda>d. ok (d\<lparr>Region := Region_Name region, RegionID := Region_ID region,
                             RegionType := Region_Type region\<rparr>)) c"

definition SetIAMEndpoint :: "string \<Rightarrow> 'p bxConfigRepository \<Rightarrow> unit result \<times> 'p bxConfigRepository" where
  "SetIAMEndpoint endpoint c = write_full (\<lambda>d. ok (d\<lparr>IAMEndpoint := endpoint\<rparr>)) c"

text \<open>
  The token setters assign the typed field, then the key of the raw map. The second
  assignment panics on a nil map, after the first has been made.
\<close>

definition SetIAMToken :: "string \<Rightarrow> 'p bxConfigRepository \<Rightarrow> unit result \<times> 'p bxConfigRepository" where
  "SetIAMToken token c =
     writeRaw (\<lambda>d.
        (let d1 = d\<lparr>IAMToken := token\<rparr> in
         case raw d1 of
           None \<Rightarrow> (Panicked ''assignment to entry in nil map'', d1)
         | Some m \<Rightarrow> ok (d1\<lparr>raw := Some (m(''IAMToken'' \<mapsto> GString token))\<rparr>))) c"


definition SetAccount :: "models_Account \<Rightarrow> 'p bxConfigRepository \<Rightarrow> unit result \<times> 'p bxConfigRepository" where
  "SetAccount account c = write_full (\<lambda>d. ok (d\<lparr>Account := account\<rparr>)) c"

definition SetResourceGroup :: "models_ResourceGroup \<Rightarrow> 'p bxConfigRepository \<Rightarrow> unit result \<times> 'p bxConfigRepository" where
  "SetResourceGroup rgroup c = write_full (\<lambda>d. ok (d\<lparr>ResourceGroup := rgroup\<rparr>)) c"

text \<open>\<^verbatim>\<open>append\<close> to a nil slice gives a slice of one element.\<close>

definition SetPluginRepo :: "models_PluginRepo \<Rightarrow> 'p bxConfigRepository \<Rightarrow> unit result \<times> 'p bxConfigRepository" where
  "SetPluginRepo pluginRepo c =
     write_full (\<lambda>d. ok (d\<lparr>PluginRepos := Some (slice_elems (PluginRepos d) @ [pluginRepo])\<rparr>)) c"




definition SetHTTPTimeout :: "int \<Rightarrow> 'p bxConfigRepository \<Rightarrow> unit result \<times> 'p bxConfigRepository" where
  "SetHTTPTimeout timeout c = write_full (\<lambda>d. ok (d\<lparr>HTTPTimeout := timeout\<rparr>)) c"

definition SetCheckCLIVersionDisabled :: "bool \<Rightarrow> 'p bxConfigRepository \<Rightarrow> unit result \<times> 'p bxConfigRepository" where
  "SetCheckCLIVersionDisabled disabled c =
     write_full (\<lambda>d. ok (d\<lparr>CheckCLIVersionDisabled := disabled\<rparr>)) c"

definition SetCLIInfoEndpoint :: "string \<Rightarrow> 'p bxConfigRepository \<Rightarrow> unit result \<times> 'p bxConfigRepository" where
  "SetCLIInfoEndpoint endpoint c = write_full (\<lambda>d. ok (d\<lparr>CLIInfoEndpoint := endpoint\<rparr>)) c"

definition SetUsageStatsDisabled :: "bool \<Rightarrow> 'p bxConfigRepository \<Rightarrow> unit result \<times> 'p bxConfigRepository" where
  "SetUsageStatsDisabled disabled c =
     write_full (\<lambda>d. ok (d\<lparr>UsageStatsDisabled := disabled\<rparr>)) c"

definition SetColorEnabled :: "string \<Rightarrow> 'p bxConfigRepository \<Rightarrow> unit result \<times> 'p bxConfigRepository" where
  "SetColorEnabled enabled c = write_full (\<lambda>d. ok (d\<lparr>ColorEnabled := enabled\<rparr>)) c"

definition SetLocale :: "string \<Rightarrow> 'p bxConfigRepository \<Rightarrow> unit result \<times> 'p bxConfigRepository" where
  "SetLocale locale c = write_full (\<lambda>d. ok (d\<lparr>Locale := locale\<rparr>)) c"

definition SetTrace :: "string \<Rightarrow> 'p bxConfigRepository \<Rightarrow> unit result \<times> 'p bxConfigRepository" where
  "SetTrace trace c = write_full (\<lambda>d. ok (d\<lparr>Trace := trace\<rparr>)) c"

definition ClearSession :: "'p bxConfigRepository \<Rightarrow> unit result \<times> 'p bxConfigRepository" where
  "ClearSession c =
     write_full (\<lambda>d. ok (d\<lparr>IAMToken := [], IAMRefreshToken := [],
                             Account := zero_Account, ResourceGroup := zero_ResourceGroup\<rparr>)) c"

definition ClearAPICache :: "'p bxConfigRepository \<Rightarrow> unit result \<times> 'p bxConfigRepository" where
  "ClearAPICache c =
     write_full (\<lambda>d. ok (d\<lparr>Region := [], RegionID := [], ConsoleEndpoint := [],
                             IAMEndpoint := []\<rparr>)) c"

subsection \<open>Sequences of operations\<close>






subsection \<open>Encoding and decoding the document\<close>

text \<open>
  Modelled from the spec: the package \<^verbatim>\<open>encoding/json\<close>, which \<^verbatim>\<open>Marshal\<close> and
  \<^verbatim>\<open>Unmarshal\<close> call, is not among the sources. The spec gives the encoding as a
  structured encoding of all known fields in declaration order, and the decoding as
  failing on bytes that are not valid structured data and otherwise filling the typed
  fields and, from the same bytes, the raw map. The concrete syntax is left out: a byte
  string is either malformed or stands for the document tree it parses to, and printing
  a tree and parsing it again is taken to give the tree back. Strings are taken to be
  valid UTF-8, as every string parsed from a file is, numbers to be integers, and the
  range of \<^verbatim>\<open>int\<close> is not modelled.
\<close>

datatype bytes = Malformed | Encoding gvalue

text \<open>
  Decoding into a typed destination: a null leaves the destination as it is, a value
  of another kind than the destination's is a type error, and decoding goes on after a
  type error and reports the first one at the end.
\<close>

definition first_error :: "error option \<Rightarrow> error option \<Rightarrow> error option" where
  "first_error e1 e2 = (case e1 of Some e \<Rightarrow> Some e | None \<Rightarrow> e2)"

definition decode_string :: "gvalue \<Rightarrow> string \<Rightarrow> error option \<times> string" where
  "decode_string v old =
     (case v of GString s \<Rightarrow> (None, s) | GNil \<Rightarrow> (None, old)
      | _ \<Rightarrow> (Some ''json: cannot unmarshal into Go value of type string'', old))"

definition decode_int :: "gvalue \<Rightarrow> int \<Rightarrow> error option \<times> int" where
  "decode_int v old =
     (case v of GInt n \<Rightarrow> (None, n) | GNil \<Rightarrow> (None, old)
      | _ \<Rightarrow> (Some ''json: cannot unmarshal into Go value of type int'', old))"

definition decode_bool :: "gvalue \<Rightarrow> bool \<Rightarrow> error option \<times> bool" where
  "decode_bool v old =
     (case v of GBool b \<Rightarrow> (None, b) | GNil \<Rightarrow> (None, old)
      | _ \<Rightarrow> (Some ''json: cannot unmarshal into Go value of type bool'', old))"

text \<open>
  A key of an object selects the field of that name, or else the first field whose
  name matches it without regard to case; a key that selects no field is skipped. The
  case-insensitive match is a parameter \<open>eqFold\<close>.
\<close>

definition field_of :: "(string \<Rightarrow> string \<Rightarrow> bool) \<Rightarrow> string list \<Rightarrow> string \<Rightarrow> string option" where
  "field_of eqFold names k = (if k \<in> set names then Some k else find (\<lambda>f. eqFold f k) names)"

definition decode_Account_field ::
  "(string \<Rightarrow> string \<Rightarrow> bool) \<Rightarrow> error option \<times> models_Account \<Rightarrow> string \<times> gvalue
     \<Rightarrow> error option \<times> models_Account" where
  "decode_Account_field eqFold acc kv =
     (case acc of (e, a) \<Rightarrow>
        (case field_of eqFold [''GUID''] (fst kv) of
           None \<Rightarrow> (e, a)
         | Some f \<Rightarrow>
             (case decode_string (snd kv) (Account_GUID a) of
                (e', s) \<Rightarrow> (first_error e e', a\<lparr>Account_GUID := s\<rparr>))))"

definition decode_Account ::
  "(string \<Rightarrow> string \<Rightarrow> bool) \<Rightarrow> gvalue \<Rightarrow> models_Account \<Rightarrow> error option \<times> models_Account" where
  "decode_Account eqFold v old =
     (case v of
        GMap kvs \<Rightarrow> foldl (decode_Account_field eqFold) (None, old) kvs
      | GNil \<Rightarrow> (None, old)
      | _ \<Rightarrow> (Some ''json: cannot unmarshal into Go value of type models.Account'', old))"

definition decode_ResourceGroup_field ::
  "(string \<Rightarrow> string \<Rightarrow> bool) \<Rightarrow> error option \<times> models_ResourceGroup \<Rightarrow> string \<times> gvalue
     \<Rightarrow> error option \<times> models_ResourceGroup" where
  "decode_ResourceGroup_field eqFold acc kv =
     (case acc of (e, g) \<Rightarrow>
        (case field_of eqFold [''GUID'', ''Name''] (fst kv) of
           None \<Rightarrow> (e, g)
         | Some f \<Rightarrow>
             (if f = ''GUID'' then
                (case decode_string (snd kv) (ResourceGroup_GUID g) of
                   (e', s) \<Rightarrow> (first_error e e', g\<lparr>ResourceGroup_GUID := s\<rparr>))
              else
                (case decode_string (snd kv) (ResourceGroup_Name g) of
                   (e', s) \<Rightarrow> (first_error e e', g\<lparr>ResourceGroup_Name := s\<rparr>)))))"

definition decode_ResourceGroup ::
  "(string \<Rightarrow> string \<Rightarrow> bool) \<Rightarrow> gvalue \<Rightarrow> models_ResourceGroup
     \<Rightarrow> error option \<times> models_ResourceGroup" where
  "decode_ResourceGroup eqFold v old =
     (case v of
        GMap kvs \<Rightarrow> foldl (decode_ResourceGroup_field eqFold) (None, old) kvs
      | GNil \<Rightarrow> (None, old)
      | _ \<Rightarrow> (Some ''json: cannot unmarshal into Go value of type models.ResourceGroup'', old))"

definition decode_PluginRepo_field ::
  "(string \<Rightarrow> string \<Rightarrow> bool) \<Rightarrow> error option \<times> models_PluginRepo \<Rightarrow> string \<times> gvalue
     \<Rightarrow> error option \<times> models_PluginRepo" where
  "decode_PluginRepo_field eqFold acc kv =
     (case acc of (e, r) \<Rightarrow>
        (case field_of eqFold [''Name'', ''URL''] (fst kv) of
           None \<Rightarrow> (e, r)
         | Some f \<Rightarrow>
             (if f = ''Name'' then
                (case decode_string (snd kv) (PluginRepo_Name r) of
                   (e', s) \<Rightarrow> (first_error e e', r\<lparr>PluginRepo_Name := s\<rparr>))
              else
                (case decode_string (snd kv) (PluginRepo_URL r) of
                   (e', s) \<Rightarrow> (first_error e e', r\<lparr>PluginRepo_URL := s\<rparr>)))))"

definition decode_PluginRepo ::
  "(string \<Rightarrow> string \<Rightarrow> bool) \<Rightarrow> gvalue \<Rightarrow> models_PluginRepo \<Rightarrow> error option \<times> models_PluginRepo" where
  "decode_PluginRepo eqFold v old =
     (case v of
        GMap kvs \<Rightarrow> foldl (decode_PluginRepo_field eqFold) (None, old) kvs
      | GNil \<Rightarrow> (None, old)
      | _ \<Rightarrow> (Some ''json: cannot unmarshal into Go value of type models.PluginRepo'', old))"

text \<open>
  An array decodes element by element, into the element the slice already has at that
  index or else into a zero element; the slice ends with the array. A null makes the
  slice nil.
\<close>

fun decode_elements ::
  "(string \<Rightarrow> string \<Rightarrow> bool) \<Rightarrow> gvalue list \<Rightarrow> models_PluginRepo list
     \<Rightarrow> error option \<times> models_PluginRepo list" where
  "decode_elements eqFold [] olds = (None, [])"
| "decode_elements eqFold (v # vs) olds =
     (case decode_PluginRepo eqFold v (case olds of [] \<Rightarrow> zero_PluginRepo | r # rs \<Rightarrow> r) of
        (e, r') \<Rightarrow>
          (case decode_elements eqFold vs (tl olds) of
             (e', rs') \<Rightarrow> (first_error e e', r' # rs')))"

definition decode_PluginRepos ::
  "(string \<Rightarrow> string \<Rightarrow> bool) \<Rightarrow> gvalue \<Rightarrow> models_PluginRepo list option
     \<Rightarrow> error option \<times> models_PluginRepo list option" where
  "decode_PluginRepos eqFold v old =
     (case v of
        GSlice vs \<Rightarrow>
          (case decode_elements eqFold vs (slice_elems old) of (e, rs) \<Rightarrow> (e, Some rs))
      | GNil \<Rightarrow> (None, None)
      | _ \<Rightarrow> (Some ''json: cannot unmarshal into Go value of type []models.PluginRepo'', old))"

text \<open>One key of the top-level object, decoded into the field it selects.\<close>

definition decode_field ::
  "(string \<Rightarrow> string \<Rightarrow> bool) \<Rightarrow> error option \<times> BXConfigData \<Rightarrow> string \<times> gvalue
     \<Rightarrow> error option \<times> BXConfigData" where
  "decode_field eqFold acc kv =
     (case acc of (e, d) \<Rightarrow>
        (case field_of eqFold known_fields (fst kv) of
           None \<Rightarrow> (e, d)
         | Some f \<Rightarrow>
             (if f = ''ConsoleEndpoint'' then
                (case decode_string (snd kv) (ConsoleEndpoint d) of
                   (e', s) \<Rightarrow> (first_error e e', d\<lparr>ConsoleEndpoint := s\<rparr>))
              else if f = ''Region'' then
                (case decode_string (snd kv) (Region d) of
                   (e', s) \<Rightarrow> (first_error e e', d\<lparr>Region := s\<rparr>))
              else if f = ''RegionID'' then
                (case decode_string (snd kv) (RegionID d) of
                   (e', s) \<Rightarrow> (first_error e e', d\<lparr>RegionID := s\<rparr>))
              else if f = ''RegionType'' then
                (case decode_string (snd kv) (RegionType d) of
                   (e', s) \<Rightarrow> (first_error e e', d\<lparr>RegionType := s\<rparr>))
              else if f = ''IAMEndpoint'' then
                (case decode_string (snd kv) (IAMEndpoint d) of
                   (e', s) \<Rightarrow> (first_error e e', d\<lparr>IAMEndpoint := s\<rparr>))
              else if f = ''IAMID'' then
                (case decode_string (snd kv) (IAMID d) of
                   (e', s) \<Rightarrow> (first_error e e', d\<lparr>IAMID := s\<rparr>))
              else if f = ''IAMToken'' then
                (case decode_string (snd kv) (IAMToken d) of
                   (e', s) \<Rightarrow> (first_error e e', d\<lparr>IAMToken := s\<rparr>))
              else if f = ''IAMRefreshToken'' then
                (case decode_string (snd kv) (IAMRefreshToken d) of
                   (e', s) \<Rightarrow> (first_error e e', d\<lparr>IAMRefreshToken := s\<rparr>))
              else if f = ''Account'' then
                (case decode_Account eqFold (snd kv) (Account d) of
                   (e', a) \<Rightarrow> (first_error e e', d\<lparr>Account := a\<rparr>))
              else if f = ''ResourceGroup'' then
                (case decode_ResourceGroup eqFold (snd kv) (ResourceGroup d) of
                   (e', g) \<Rightarrow> (first_error e e', d\<lparr>ResourceGroup := g\<rparr>))
              else if f = ''PluginRepos'' then
                (case decode_PluginRepos eqFold (snd kv) (PluginRepos d) of
                   (e', rs) \<Rightarrow> (first_error e e', d\<lparr>PluginRepos := rs\<rparr>))
              else if f = ''Locale'' then
                (case decode_string (snd kv) (Locale d) of
                   (e', s) \<Rightarrow> (first_error e e', d\<lparr>Locale := s\<rparr>))
              else if f = ''Trace'' then
                (case decode_string (snd kv) (Trace d) of
                   (e', s) \<Rightarrow> (first_error e e', d\<lparr>Trace := s\<rparr>))
              else if f = ''ColorEnabled'' then
                (case decode_string (snd kv) (ColorEnabled d) of
                   (e', s) \<Rightarrow> (first_error e e', d\<lparr>ColorEnabled := s\<rparr>))
              else if f = ''HTTPTimeout'' then
                (case decode_int (snd kv) (HTTPTimeout d) of
                   (e', n) \<Rightarrow> (first_error e e', d\<lparr>HTTPTimeout := n\<rparr>))
              else if f = ''CLIInfoEndpoint'' then
                (case decode_string (snd kv) (CLIInfoEndpoint d) of
                   (e', s) \<Rightarrow> (first_error e e', d\<lparr>CLIInfoEndpoint := s\<rparr>))
              else if f = ''CheckCLIVersionDisabled'' then
                (case decode_bool (snd kv) (CheckCLIVersionDisabled d) of
                   (e', b) \<Rightarrow> (first_error e e', d\<lparr>CheckCLIVersionDisabled := b\<rparr>))
              else
                (case decode_bool (snd kv) (UsageStatsDisabled d) of
                   (e', b) \<Rightarrow> (first_error e e', d\<lparr>UsageStatsDisabled := b\<rparr>)))))"

text \<open>\<^verbatim>\<open>json.Unmarshal(bytes, data)\<close> on a document tree.\<close>

definition json_Unmarshal_data ::
  "(string \<Rightarrow> string \<Rightarrow> bool) \<Rightarrow> gvalue \<Rightarrow> BXConfigData \<Rightarrow> error option \<times> BXConfigData" where
  "json_Unmarshal_data eqFold t d =
     (case t of
        GMap kvs \<Rightarrow> foldl (decode_field eqFold) (None, d) kvs
      | GNil \<Rightarrow> (None, d)
      | _ \<Rightarrow> (Some ''json: cannot unmarshal into Go value of type core_config.BXConfigData'', d))"

text \<open>
  \<^verbatim>\<open>json.Unmarshal(bytes, &raw)\<close> on a document tree: an object becomes a new map of
  all its keys, a repeated key keeping its last value; a null leaves the map nil.
\<close>

definition json_Unmarshal_raw :: "gvalue \<Rightarrow> error + raw" where
  "json_Unmarshal_raw t =
     (case t of
        GMap kvs \<Rightarrow> Inr (Some (map_of (rev kvs)))
      | GNil \<Rightarrow> Inr None
      | _ \<Rightarrow> Inl ''json: cannot unmarshal into Go value of type core_config.raw'')"

text \<open>
  \<^verbatim>\<open>BXConfigData.Marshal\<close>: the object of the exported fields, in declaration order,
  the field names as keys.
\<close>

definition Marshal :: "BXConfigData \<Rightarrow> error + bytes" where
  "Marshal d = Inr (Encoding (GMap (struct_fields d)))"

text \<open>
  \<^verbatim>\<open>BXConfigData.Unmarshal\<close>: the typed decoding, then the decoding of the same bytes
  into a raw map, which replaces the one of the document. An error of the first leaves
  the raw map as it was.
\<close>

definition Unmarshal ::
  "(string \<Rightarrow> string \<Rightarrow> bool) \<Rightarrow> bytes \<Rightarrow> BXConfigData \<Rightarrow> error option \<times> BXConfigData" where
  "Unmarshal eqFold b d =
     (case b of
        Malformed \<Rightarrow> (Some ''invalid character'', d)
      | Encoding t \<Rightarrow>
          (case json_Unmarshal_data eqFold t d of
             (Some err, d1) \<Rightarrow> (Some err, d1)
           | (None, d1) \<Rightarrow>
               (case json_Unmarshal_raw t of
                  Inl err \<Rightarrow> (Some err, d1)
                | Inr r \<Rightarrow> (None, d1\<lparr>raw := r\<rparr>))))"

subsection \<open>A persistor in memory, two handlers and a sample document\<close>

text \<open>
  A test double: \<^verbatim>\<open>Load\<close> hands out the stored document or fails, \<^verbatim>\<open>Save\<close> keeps what
  it was given or fails. The first handler returns; the second is the one of
  \<^verbatim>\<open>plugin.GetPluginContext\<close>.
\<close>

record mem_disk =
  stored :: BXConfigData
  load_error :: "error option"
  save_error :: "error option"
  last_saved :: "saved option"

definition mem_persistor :: "mem_disk Persistor" where
  "mem_persistor =
     \<lparr>Load = (\<lambda>ps d. case load_error ps of
                        Some e \<Rightarrow> (Some e, d, ps)
                      | None \<Rightarrow> (None, stored ps, ps)),
      Save = (\<lambda>ps src. case save_error ps of
                          Some e \<Rightarrow> (Some e, ps)
                        | None \<Rightarrow> (None, ps\<lparr>last_saved := Some src\<rparr>))\<rparr>"

definition returning_handler :: "error \<Rightarrow> unit result" where
  "returning_handler err = Returned ()"


definition sample_data :: BXConfigData where
  "sample_data =
     NewBXConfigData
       \<lparr>ConsoleEndpoint := ''console.example'', Region := ''US South'',
        RegionID := ''ibm:yp:us-south'', RegionType := ''public'',
        IAMEndpoint := ''iam.example'', IAMToken := ''tok0'', IAMRefreshToken := ''ref0'',
        Account := \<lparr>Account_GUID = ''acct-1''\<rparr>,
        ResourceGroup := \<lparr>ResourceGroup_GUID = ''rg-1'', ResourceGroup_Name = ''default''\<rparr>,
        PluginRepos := Some [\<lparr>PluginRepo_Name = ''foo'', PluginRepo_URL = ''u1''\<rparr>,
                             \<lparr>PluginRepo_Name = ''Bar'', PluginRepo_URL = ''u2''\<rparr>],
        raw := Some [''FutureKey'' \<mapsto> GString ''kept'']\<rparr>"

definition sample_disk :: mem_disk where
  "sample_disk = \<lparr>stored = sample_data, load_error = None, save_error = None, last_saved = None\<rparr>"

definition sample_repo :: "mem_disk bxConfigRepository" where
  "sample_repo = createBluemixConfigFromPersistor mem_persistor sample_disk returning_handler"

text \<open>The same repository over a disk that refuses every save.\<close>

definition failing_repo :: "mem_disk bxConfigRepository" where
  "failing_repo =
     createBluemixConfigFromPersistor mem_persistor
       (sample_disk\<lparr>save_error := Some ''disk full''\<rparr>) returning_handler"

text \<open>The sample repository once the lazy load has run.\<close>

definition loaded_repo :: "mem_disk bxConfigRepository" where
  "loaded_repo = sample_repo\<lparr>data := sample_data, initOnce := True, events := [LoadCalled]\<rparr>"

section \<open>Properties\<close>

subsection \<open>Splitting a region id\<close>

lemma Split_nonempty: "Split s sep \<noteq> []"
  by (induction s) (auto split: list.splits)

lemma Split_no_sep: "sep \<notin> set a \<Longrightarrow> Split a sep = [a]"
  by (induction a) auto

lemma Split_append: "sep \<notin> set a \<Longrightarrow> Split (a @ sep # rest) sep = a # Split rest sep"
  by (induction a) auto

lemma Split_Cons_D:
  "Split s sep = w # ws \<Longrightarrow>
     sep \<notin> set w \<and> (if ws = [] then s = w else (\<exists>rest. s = w @ sep # rest \<and> Split rest sep = ws))"
proof (induction s arbitrary: w ws)
  case Nil
  then show ?case by simp
next
  case (Cons x xs)
  show ?case
  proof (cases "x = sep")
    case True
    with Cons.prems have "w = []" "ws = Split xs sep" by auto
    with True show ?thesis by (simp add: Split_nonempty)
  next
    case False
    obtain v vs where sp: "Split xs sep = v # vs"
      using Split_nonempty[of xs sep] by (cases "Split xs sep") auto
    with False Cons.prems have w: "w = x # v" and ws: "ws = vs" by auto
    from Cons.IH[OF sp] have v: "sep \<notin> set v"
      and r: "if vs = [] then xs = v else (\<exists>rest. xs = v @ sep # rest \<and> Split rest sep = vs)"
      by auto
    show ?thesis
    proof (cases "vs = []")
      case True
      with r w ws v False show ?thesis by simp
    next
      case nonempty: False
      with r obtain rest where "xs = v @ sep # rest" "Split rest sep = vs" by auto
      with w ws v False nonempty show ?thesis by simp
    qed
  qed
qed

lemma Split_three_iff:
  "Split s sep = [a, b, d] \<longleftrightarrow>
     s = a @ sep # b @ sep # d \<and> sep \<notin> set a \<and> sep \<notin> set b \<and> sep \<notin> set d"
proof
  assume h: "Split s sep = [a, b, d]"
  from Split_Cons_D[OF h] obtain r1 where a: "sep \<notin> set a" and s: "s = a @ sep # r1"
    and h1: "Split r1 sep = [b, d]" by auto
  from Split_Cons_D[OF h1] obtain r2 where b: "sep \<notin> set b" and r1: "r1 = b @ sep # r2"
    and h2: "Split r2 sep = [d]" by auto
  from Split_Cons_D[OF h2] have "sep \<notin> set d" "r2 = d" by auto
  with a b s r1 show "s = a @ sep # b @ sep # d \<and> sep \<notin> set a \<and> sep \<notin> set b \<and> sep \<notin> set d"
    by simp
next
  assume "s = a @ sep # b @ sep # d \<and> sep \<notin> set a \<and> sep \<notin> set b \<and> sep \<notin> set d"
  then show "Split s sep = [a, b, d]"
    by (simp add: Split_append Split_no_sep)
qed

lemma length_three_iff: "length xs = 3 \<longleftrightarrow> (\<exists>a b d. xs = [a, b, d])"
  by (auto simp: length_Suc_conv numeral_3_eq_3)

lemma three_segments_iff:
  "(\<exists>a b d. rid = a @ sep # b @ sep # d \<and> sep \<notin> set a \<and> sep \<notin> set b \<and> sep \<notin> set d)
     \<longleftrightarrow> length (Split rid sep) = 3"
  unfolding length_three_iff Split_three_iff [symmetric] ..

lemma HasPrefix_iff: "HasPrefix s p \<longleftrightarrow> prefix p s"
proof
  assume "HasPrefix s p"
  then have "p = take (length p) s" by (simp add: HasPrefix_def)
  then show "prefix p s" by (metis take_is_prefix)
next
  assume "prefix p s"
  then obtain zs where "s = p @ zs" by (auto simp: prefix_def)
  then show "HasPrefix s p" by (simp add: HasPrefix_def)
qed

lemma CloudName_of_three:
  assumes "CHR '':'' \<notin> set a" "CHR '':'' \<notin> set b" "CHR '':'' \<notin> set d"
  shows "CloudName_of (a @ CHR '':'' # b @ CHR '':'' # d) =
          (if a \<noteq> ''ibm'' then a
           else if b = ''yp'' then ''bluemix''
           else if prefix ''ys'' b then ''staging'' else [])"
proof -
  have "Split (a @ CHR '':'' # b @ CHR '':'' # d) CHR '':'' = [a, b, d]"
    using assms by (simp add: Split_three_iff)
  moreover have "HasPrefix b ''ys'' \<longleftrightarrow> prefix ''ys'' b"
    by (rule HasPrefix_iff)
  ultimately show ?thesis
    by (simp add: CloudName_of_def)
qed

lemma CloudName_of_other:
  assumes "\<not> (\<exists>a b d. rid = a @ CHR '':'' # b @ CHR '':'' # d \<and>
              CHR '':'' \<notin> set a \<and> CHR '':'' \<notin> set b \<and> CHR '':'' \<notin> set d)"
  shows "CloudName_of rid = []"
proof -
  have "length (Split rid CHR '':'') \<noteq> 3"
    using assms by (simp only: three_segments_iff not_False_eq_True)
  then show ?thesis by (simp add: CloudName_of_def)
qed

subsection \<open>The lazy load and the three access paths\<close>

lemma init_done: "initOnce c \<Longrightarrow> init c = (Returned (), c)"
  by (simp add: init_def)

lemma read_after_init:
  "init c = (Returned (), c1) \<Longrightarrow> read cb c = (Returned (cb (data c1)), c1)"
  by (simp add: read_def)

lemma CloudName_after_init:
  "init c = (Returned (), c1) \<Longrightarrow> CloudName c = (Returned (CloudName_of (RegionID (data c1))), c1)"
  by (simp add: CloudName_def Region_get_def read_after_init)

lemma init_sample_repo: "init sample_repo = (Returned (), loaded_repo)"
  by (simp add: init_def loaded_repo_def sample_repo_def createBluemixConfigFromPersistor_def
      mem_persistor_def sample_disk_def)

lemma loaded_repo_fields:
  "data loaded_repo = sample_data" "persistor loaded_repo = mem_persistor"
  "pstate loaded_repo = sample_disk" "initOnce loaded_repo"
  "onError loaded_repo = returning_handler" "events loaded_repo = [LoadCalled]"
  by (simp_all add: loaded_repo_def sample_repo_def createBluemixConfigFromPersistor_def)

subsection \<open>The cloud name of a region id\<close>

text \<open>
  Claim C6. \<^verbatim>\<open>CloudName()\<close> reads the region id through the repository and classifies
  it. An id made of exactly three segments \<open>a:b:d\<close> without further colons gives \<open>a\<close>
  when \<open>a\<close> is not \<^verbatim>\<open>ibm\<close>, and for \<^verbatim>\<open>ibm\<close> gives \<^verbatim>\<open>bluemix\<close> when \<open>b\<close> is \<^verbatim>\<open>yp\<close>,
  \<^verbatim>\<open>staging\<close> when \<open>b\<close> starts with \<^verbatim>\<open>ys\<close>, and the empty string otherwise. Every
  other id, the empty one among them, gives the empty string. The six rows of the
  table of the specification follow.
\<close>

theorem CloudName_classifies:
  "(init c = (Returned (), c1) \<longrightarrow>
      CloudName c = (Returned (CloudName_of (RegionID (data c1))), c1))
   \<and> (\<forall>a b d. CHR '':'' \<notin> set a \<and> CHR '':'' \<notin> set b \<and> CHR '':'' \<notin> set d \<longrightarrow>
        CloudName_of (a @ CHR '':'' # b @ CHR '':'' # d) =
          (if a \<noteq> ''ibm'' then a
           else if b = ''yp'' then ''bluemix''
           else if prefix ''ys'' b then ''staging'' else []))
   \<and> (\<forall>rid. \<not> (\<exists>a b d. rid = a @ CHR '':'' # b @ CHR '':'' # d \<and>
               CHR '':'' \<notin> set a \<and> CHR '':'' \<notin> set b \<and> CHR '':'' \<notin> set d) \<longrightarrow>
        CloudName_of rid = [])
   \<and> CloudName_of ''ibm:yp:us-south'' = ''bluemix''
   \<and> CloudName_of ''ibm:ys1:eu-gb'' = ''staging''
   \<and> CloudName_of ''ibm:prod:us-south'' = []
   \<and> CloudName_of ''softlayer:yp:dal'' = ''softlayer''
   \<and> CloudName_of [] = []
   \<and> CloudName_of ''a:b'' = []"
proof (intro conjI allI impI)
  show "CloudName c = (Returned (CloudName_of (RegionID (data c1))), c1)"
    if "init c = (Returned (), c1)"
    using that by (rule CloudName_after_init)
  show "CloudName_of (a @ CHR '':'' # b @ CHR '':'' # d) =
          (if a \<noteq> ''ibm'' then a
           else if b = ''yp'' then ''bluemix''
           else if prefix ''ys'' b then ''staging'' else [])"
    if "CHR '':'' \<notin> set a \<and> CHR '':'' \<notin> set b \<and> CHR '':'' \<notin> set d" for a b d
    using that by (intro CloudName_of_three) simp_all
  show "CloudName_of rid = []"
    if "\<not> (\<exists>a b d. rid = a @ CHR '':'' # b @ CHR '':'' # d \<and>
               CHR '':'' \<notin> set a \<and> CHR '':'' \<notin> set b \<and> CHR '':'' \<notin> set d)" for rid
    using that by (rule CloudName_of_other)
  show "CloudName_of ''ibm:yp:us-south'' = ''bluemix''"
    by (simp add: CloudName_of_def HasPrefix_def)
  show "CloudName_of ''ibm:ys1:eu-gb'' = ''staging''"
    by (simp add: CloudName_of_def HasPrefix_def)
  show "CloudName_of ''ibm:prod:us-south'' = []"
    by (simp add: CloudName_of_def HasPrefix_def)
  show "CloudName_of ''softlayer:yp:dal'' = ''softlayer''"
    by (simp add: CloudName_of_def HasPrefix_def)
  show "CloudName_of [] = []"
    by (simp add: CloudName_of_def)
  show "CloudName_of ''a:b'' = []"
    by (simp add: CloudName_of_def)
qed

theorem CloudName_classifies_witness:
  "init sample_repo = (Returned (), loaded_repo)
   \<and> fst (CloudName sample_repo) = Returned ''bluemix''
   \<and> CHR '':'' \<notin> set ''softlayer'' \<and> CHR '':'' \<notin> set ''yp'' \<and> CHR '':'' \<notin> set ''dal''
   \<and> CloudName_of (''softlayer'' @ CHR '':'' # ''yp'' @ CHR '':'' # ''dal'') = ''softlayer''
   \<and> \<not> (\<exists>a b d. ''a:b'' = a @ CHR '':'' # b @ CHR '':'' # d \<and>
               CHR '':'' \<notin> set a \<and> CHR '':'' \<notin> set b \<and> CHR '':'' \<notin> set d)
   \<and> CloudName_of ''a:b'' = []"
proof -
  note T = CloudName_classifies [of sample_repo loaded_repo]
  have h1: "init sample_repo = (Returned (), loaded_repo)"
    by (rule init_sample_repo)
  have h2: "CHR '':'' \<notin> set ''softlayer'' \<and> CHR '':'' \<notin> set ''yp'' \<and> CHR '':'' \<notin> set ''dal''"
    by simp
  have h3: "\<not> (\<exists>a b d. ''a:b'' = a @ CHR '':'' # b @ CHR '':'' # d \<and>
               CHR '':'' \<notin> set a \<and> CHR '':'' \<notin> set b \<and> CHR '':'' \<notin> set d)"
    unfolding three_segments_iff by simp
  have "CloudName sample_repo = (Returned (CloudName_of (RegionID (data loaded_repo))), loaded_repo)"
    using T [THEN conjunct1, rule_format, OF h1] .
  moreover have "CloudName_of (RegionID sample_data) = ''bluemix''"
    using T [THEN conjunct2, THEN conjunct2, THEN conjunct2, THEN conjunct1]
    by (simp add: sample_data_def)
  ultimately have c1: "fst (CloudName sample_repo) = Returned ''bluemix''"
    by (simp add: loaded_repo_fields)
  have c2: "CloudName_of (''softlayer'' @ CHR '':'' # ''yp'' @ CHR '':'' # ''dal'') = ''softlayer''"
    using T [THEN conjunct2, THEN conjunct1, rule_format, OF h2] by simp
  have c3: "CloudName_of ''a:b'' = []"
    using T [THEN conjunct2, THEN conjunct2, THEN conjunct1, rule_format, OF h3] .
  from h1 h2 h3 c1 c2 c3 show ?thesis by (intro conjI) simp_all
qed

lemma init_initOnce: "initOnce (snd (init c))"
  by (auto simp: init_def call_onError_def Let_def split: prod.splits option.splits)

lemma data_save_and_report: "data (snd (save_and_report src c)) = data c"
  by (auto simp: save_and_report_def call_onError_def Let_def split: prod.splits option.splits)

lemma initOnce_save_and_report: "initOnce (snd (save_and_report src c)) = initOnce c"
  by (auto simp: save_and_report_def call_onError_def Let_def split: prod.splits option.splits)


lemma initOnce_write_full: "initOnce (snd (write_full cb c))"
  using init_initOnce[of c]
  by (auto simp: write_full_def Let_def initOnce_save_and_report split: prod.splits result.splits)

lemma initOnce_writeRaw: "initOnce (snd (writeRaw cb c))"
  using init_initOnce[of c]
  by (auto simp: writeRaw_def Let_def initOnce_save_and_report split: prod.splits result.splits)

lemma write_full_after_init:
  assumes "init c = (Returned (), c1)" and "cb (data c1) = (Returned (), d)"
  shows "write_full cb c =
           save_and_report (SavedData (d\<lparr>raw := Some (structs_Map d)\<rparr>))
             (c1\<lparr>data := d\<lparr>raw := Some (structs_Map d)\<rparr>\<rparr>)"
  using assms by (simp add: write_full_def Let_def)

lemma data_write_full:
  assumes "init c = (Returned (), c1)" and "cb (data c1) = (Returned (), d)"
  shows "data (snd (write_full cb c)) = d\<lparr>raw := Some (structs_Map d)\<rparr>"
  by (simp add: write_full_after_init[of c c1 cb d, OF assms] data_save_and_report)

lemma writeRaw_after_init:
  assumes "init c = (Returned (), c1)" and "cb (data c1) = (Returned (), d)"
  shows "writeRaw cb c = save_and_report (SavedRaw (raw d)) (c1\<lparr>data := d\<rparr>)"
  using assms by (simp add: writeRaw_def)

lemma data_writeRaw:
  assumes "init c = (Returned (), c1)" and "cb (data c1) = (Returned (), d)"
  shows "data (snd (writeRaw cb c)) = d"
  by (simp add: writeRaw_after_init[of c c1 cb d, OF assms] data_save_and_report)

subsection \<open>Clearing the session\<close>

text \<open>
  Claim C8. Once the lazy load has run or returns, \<^verbatim>\<open>ClearSession()\<close> leaves the IAM
  access token and the IAM refresh token empty and the account and the resource group at
  their zero values, and every other typed field of the document as it was after the
  load: the three region fields, the console endpoint, the IAM endpoint, the IAM id, the
  plugin repositories, locale, trace, colour, timeout, CLI-info endpoint and the two
  flags. This holds whether or not the save that follows succeeds.
\<close>

theorem ClearSession_frame:
  assumes "init c = (Returned (), c1)"
  shows "IAMToken (data (snd (ClearSession c))) = []
       \<and> IAMRefreshToken (data (snd (ClearSession c))) = []
       \<and> Account (data (snd (ClearSession c))) = zero_Account
       \<and> ResourceGroup (data (snd (ClearSession c))) = zero_ResourceGroup
       \<and> Region (data (snd (ClearSession c))) = Region (data c1)
       \<and> RegionID (data (snd (ClearSession c))) = RegionID (data c1)
       \<and> RegionType (data (snd (ClearSession c))) = RegionType (data c1)
       \<and> ConsoleEndpoint (data (snd (ClearSession c))) = ConsoleEndpoint (data c1)
       \<and> IAMEndpoint (data (snd (ClearSession c))) = IAMEndpoint (data c1)
       \<and> IAMID (data (snd (ClearSession c))) = IAMID (data c1)
       \<and> PluginRepos (data (snd (ClearSession c))) = PluginRepos (data c1)
       \<and> Locale (data (snd (ClearSession c))) = Locale (data c1)
       \<and> Trace (data (snd (ClearSession c))) = Trace (data c1)
       \<and> ColorEnabled (data (snd (ClearSession c))) = ColorEnabled (data c1)
       \<and> HTTPTimeout (data (snd (ClearSession c))) = HTTPTimeout (data c1)
       \<and> CLIInfoEndpoint (data (snd (ClearSession c))) = CLIInfoEndpoint (data c1)
       \<and> CheckCLIVersionDisabled (data (snd (ClearSession c))) = CheckCLIVersionDisabled (data c1)
       \<and> UsageStatsDisabled (data (snd (ClearSession c))) = UsageStatsDisabled (data c1)"
proof -
  have "data (snd (ClearSession c)) =
          (data c1)\<lparr>IAMToken := [], IAMRefreshToken := [], Account := zero_Account,
                    ResourceGroup := zero_ResourceGroup,
                    raw := Some (structs_Map ((data c1)\<lparr>IAMToken := [], IAMRefreshToken := [],
                       Account := zero_Account, ResourceGroup := zero_ResourceGroup\<rparr>))\<rparr>"
    unfolding ClearSession_def
    by (subst data_write_full[where ?c1.0 = c1, OF assms]) (simp_all add: ok_def)
  then show ?thesis by simp
qed

theorem ClearSession_frame_witness:
  "init sample_repo = (Returned (), loaded_repo)
   \<and> IAMToken sample_data = ''tok0''
   \<and> IAMToken (data (snd (ClearSession sample_repo))) = []
   \<and> RegionID (data (snd (ClearSession sample_repo))) = ''ibm:yp:us-south''
   \<and> ConsoleEndpoint (data (snd (ClearSession sample_repo))) = ''console.example''"
proof -
  note T = ClearSession_frame [OF init_sample_repo]
  have "IAMToken sample_data = ''tok0''" "RegionID sample_data = ''ibm:yp:us-south''"
    "ConsoleEndpoint sample_data = ''console.example''"
    by (simp_all add: sample_data_def NewBXConfigData_def)
  with T init_sample_repo show ?thesis by (simp add: loaded_repo_fields)
qed

subsection \<open>Clearing the API cache\<close>

text \<open>
  Claim C7. \<^verbatim>\<open>ClearAPICache()\<close> assigns the empty string to \<^verbatim>\<open>Region\<close>, \<^verbatim>\<open>RegionID\<close>,
  \<^verbatim>\<open>ConsoleEndpoint\<close> and \<^verbatim>\<open>IAMEndpoint\<close>, and to nothing else: \<^verbatim>\<open>RegionType\<close>, which
  \<^verbatim>\<open>SetRegion\<close> writes and \<^verbatim>\<open>Region()\<close> reads together with the other two, keeps its
  value. On the sample repository, whose region type is \<^verbatim>\<open>public\<close>, the call returns,
  the region id and name are empty afterwards, and \<^verbatim>\<open>CloudType()\<close> and \<^verbatim>\<open>Region()\<close>
  still report the type \<^verbatim>\<open>public\<close>.
\<close>

theorem ClearAPICache_keeps_RegionType:
  "RegionType (data (snd (ClearAPICache sample_repo))) = ''public''
   \<and> Region (data (snd (ClearAPICache sample_repo))) = []
   \<and> RegionID (data (snd (ClearAPICache sample_repo))) = []
   \<and> fst (ClearAPICache sample_repo) = Returned ()
   \<and> fst (CloudType (snd (ClearAPICache sample_repo))) = Returned ''public''
   \<and> fst (Region_get (snd (ClearAPICache sample_repo))) =
        Returned \<lparr>Region_ID = [], Region_Name = [], Region_Type = ''public''\<rparr>"
proof -
  let ?d = "sample_data\<lparr>Region := [], RegionID := [], ConsoleEndpoint := [], IAMEndpoint := []\<rparr>"
  have w: "ClearAPICache sample_repo =
     save_and_report (SavedData (?d\<lparr>raw := Some (structs_Map ?d)\<rparr>))
       (loaded_repo\<lparr>data := ?d\<lparr>raw := Some (structs_Map ?d)\<rparr>\<rparr>)"
    unfolding ClearAPICache_def
    by (subst write_full_after_init[where ?c1.0 = loaded_repo, OF init_sample_repo])
       (simp_all add: ok_def loaded_repo_fields)
  have d: "data (snd (ClearAPICache sample_repo)) = ?d\<lparr>raw := Some (structs_Map ?d)\<rparr>"
    by (simp add: w data_save_and_report)
  have i: "initOnce (snd (ClearAPICache sample_repo))"
    by (simp add: ClearAPICache_def initOnce_write_full)
  have r: "fst (ClearAPICache sample_repo) = Returned ()"
    by (simp add: w save_and_report_def loaded_repo_fields mem_persistor_def sample_disk_def)
  have t: "RegionType sample_data = ''public''"
    by (simp add: sample_data_def)
  from d t r i show ?thesis
    by (simp add: CloudType_def Region_get_def read_def init_done)
qed

subsection \<open>Full writes regenerate the raw map\<close>


lemma write_full_Returned_D:
  assumes "fst (write_full cb c) = Returned ()"
  shows "\<exists>c1 d0. init c = (Returned (), c1) \<and> cb (data c1) = (Returned (), d0)"
proof -
  obtain r1 c1 where i: "init c = (r1, c1)" by (cases "init c")
  obtain r2 d0 where m: "cb (data c1) = (r2, d0)" by (cases "cb (data c1)")
  from assms i have "r1 = Returned ()"
    by (cases r1) (auto simp: write_full_def)
  moreover from assms i m this have "r2 = Returned ()"
    by (cases r2) (auto simp: write_full_def)
  ultimately show ?thesis using i m by simp
qed

lemma structs_Map_values:
  "structs_Map d ''ConsoleEndpoint'' = Some (GString (ConsoleEndpoint d))"
  "structs_Map d ''Region'' = Some (GString (Region d))"
  "structs_Map d ''RegionID'' = Some (GString (RegionID d))"
  "structs_Map d ''RegionType'' = Some (GString (RegionType d))"
  "structs_Map d ''IAMEndpoint'' = Some (GString (IAMEndpoint d))"
  "structs_Map d ''IAMID'' = Some (GString (IAMID d))"
  "structs_Map d ''IAMToken'' = Some (GString (IAMToken d))"
  "structs_Map d ''IAMRefreshToken'' = Some (GString (IAMRefreshToken d))"
  "structs_Map d ''Account'' = Some (Account_value (Account d))"
  "structs_Map d ''ResourceGroup'' = Some (ResourceGroup_value (ResourceGroup d))"
  "structs_Map d ''PluginRepos'' = Some (PluginRepos_value (PluginRepos d))"
  "structs_Map d ''Locale'' = Some (GString (Locale d))"
  "structs_Map d ''Trace'' = Some (GString (Trace d))"
  "structs_Map d ''ColorEnabled'' = Some (GString (ColorEnabled d))"
  "structs_Map d ''HTTPTimeout'' = Some (GInt (HTTPTimeout d))"
  "structs_Map d ''CLIInfoEndpoint'' = Some (GString (CLIInfoEndpoint d))"
  "structs_Map d ''CheckCLIVersionDisabled'' = Some (GBool (CheckCLIVersionDisabled d))"
  "structs_Map d ''UsageStatsDisabled'' = Some (GBool (UsageStatsDisabled d))"
  by (simp_all add: structs_Map_def struct_fields_def)

lemma dom_structs_Map: "dom (structs_Map d) = set known_fields"
  by (simp add: structs_Map_def struct_fields_def known_fields_def dom_map_of_conv_image_fst)

lemma structs_Map_raw_update: "structs_Map (d\<lparr>raw := r\<rparr>) = structs_Map d"
  by (simp add: structs_Map_def struct_fields_def)

lemma fst_save_and_report_sample:
  "fst (save_and_report src (loaded_repo\<lparr>data := d\<rparr>)) = Returned ()"
  by (simp add: save_and_report_def loaded_repo_fields mem_persistor_def sample_disk_def)

text \<open>
  Claim C2. Every setter other than the two token setters, \<^verbatim>\<open>ClearSession\<close> and
  \<^verbatim>\<open>ClearAPICache\<close> among them, is \<^verbatim>\<open>write\<close> applied to a mutation. After a full write
  that has completed, the raw map of the document is the map built from the document:
  each of the eighteen field names is bound to the current value of its field, these are
  all its keys, and a key that names no typed field is bound to nothing, whatever the raw
  map held before.
\<close>

theorem write_full_regenerates_raw:
  assumes "fst (write_full cb c) = Returned ()" and "d = data (snd (write_full cb c))"
  shows "\<exists>m. raw d = Some m
     \<and> m ''ConsoleEndpoint'' = Some (GString (ConsoleEndpoint d))
     \<and> m ''Region'' = Some (GString (Region d))
     \<and> m ''RegionID'' = Some (GString (RegionID d))
     \<and> m ''RegionType'' = Some (GString (RegionType d))
     \<and> m ''IAMEndpoint'' = Some (GString (IAMEndpoint d))
     \<and> m ''IAMID'' = Some (GString (IAMID d))
     \<and> m ''IAMToken'' = Some (GString (IAMToken d))
     \<and> m ''IAMRefreshToken'' = Some (GString (IAMRefreshToken d))
     \<and> m ''Account'' = Some (Account_value (Account d))
     \<and> m ''ResourceGroup'' = Some (ResourceGroup_value (ResourceGroup d))
     \<and> m ''PluginRepos'' = Some (PluginRepos_value (PluginRepos d))
     \<and> m ''Locale'' = Some (GString (Locale d))
     \<and> m ''Trace'' = Some (GString (Trace d))
     \<and> m ''ColorEnabled'' = Some (GString (ColorEnabled d))
     \<and> m ''HTTPTimeout'' = Some (GInt (HTTPTimeout d))
     \<and> m ''CLIInfoEndpoint'' = Some (GString (CLIInfoEndpoint d))
     \<and> m ''CheckCLIVersionDisabled'' = Some (GBool (CheckCLIVersionDisabled d))
     \<and> m ''UsageStatsDisabled'' = Some (GBool (UsageStatsDisabled d))
     \<and> dom m = set known_fields
     \<and> (\<forall>K. K \<notin> set known_fields \<longrightarrow> m K = None)"
proof -
  from write_full_Returned_D[OF assms(1)] obtain c1 d0
    where i: "init c = (Returned (), c1)" and m: "cb (data c1) = (Returned (), d0)" by blast
  have d: "d = d0\<lparr>raw := Some (structs_Map d0)\<rparr>"
    using assms(2) data_write_full[of c c1 cb d0, OF i m] by simp
  have r: "raw d = Some (structs_Map d)"
    by (simp add: d structs_Map_raw_update)
  have n: "\<forall>K. K \<notin> set known_fields \<longrightarrow> structs_Map d K = None"
    using dom_structs_Map[of d] by blast
  show ?thesis
  proof (rule exI[of _ "structs_Map d"], intro conjI)
    show "\<forall>K. K \<notin> set known_fields \<longrightarrow> structs_Map d K = None" by (rule n)
  qed (simp_all only: r structs_Map_values dom_structs_Map)
qed

theorem write_full_regenerates_raw_witness:
  "fst (SetLocale ''fr'' sample_repo) = Returned ()
   \<and> raw sample_data = Some [''FutureKey'' \<mapsto> GString ''kept'']
   \<and> (\<exists>m. raw (data (snd (SetLocale ''fr'' sample_repo))) = Some m
          \<and> m ''Locale'' = Some (GString ''fr'')
          \<and> m ''IAMToken'' = Some (GString ''tok0'')
          \<and> m ''FutureKey'' = None)"
proof -
  let ?cb = "\<lambda>d. ok (d\<lparr>Locale := ''fr''\<rparr>)"
  have w: "write_full ?cb sample_repo =
      save_and_report (SavedData (sample_data\<lparr>Locale := ''fr'', raw := Some (structs_Map (sample_data\<lparr>Locale := ''fr''\<rparr>))\<rparr>))
         (loaded_repo\<lparr>data := sample_data\<lparr>Locale := ''fr'', raw := Some (structs_Map (sample_data\<lparr>Locale := ''fr''\<rparr>))\<rparr>\<rparr>)"
    by (subst write_full_after_init[where ?c1.0 = loaded_repo, OF init_sample_repo])
       (simp_all add: ok_def loaded_repo_fields)
  have h: "fst (write_full ?cb sample_repo) = Returned ()"
    by (simp only: w fst_save_and_report_sample)
  have d: "data (snd (write_full ?cb sample_repo)) =
      sample_data\<lparr>Locale := ''fr'', raw := Some (structs_Map (sample_data\<lparr>Locale := ''fr''\<rparr>))\<rparr>"
    by (simp only: w data_save_and_report) simp
  from write_full_regenerates_raw [OF h refl] obtain m where
    m: "raw (data (snd (write_full ?cb sample_repo))) = Some m"
      "m ''Locale'' = Some (GString (Locale (data (snd (write_full ?cb sample_repo)))))"
      "m ''IAMToken'' = Some (GString (IAMToken (data (snd (write_full ?cb sample_repo)))))"
      "\<forall>K. K \<notin> set known_fields \<longrightarrow> m K = None"
    by blast
  have k: "''FutureKey'' \<notin> set known_fields"
    by (simp add: known_fields_def)
  have "m ''FutureKey'' = None" using m(4) k by blast
  moreover have "m ''Locale'' = Some (GString ''fr'')" using m(2) by (simp add: d)
  moreover have "m ''IAMToken'' = Some (GString ''tok0'')" using m(3) by (simp add: d sample_data_def)
  moreover have "raw sample_data = Some [''FutureKey'' \<mapsto> GString ''kept'']"
    by (simp add: sample_data_def)
  ultimately show ?thesis
    using h m(1) unfolding SetLocale_def by blast
qed

subsection \<open>The token setters write through the raw map\<close>



lemma SetIAMToken_after_init:
  assumes "init c = (Returned (), c1)" and "raw (data c1) = Some m"
  shows "SetIAMToken tok c =
          save_and_report (SavedRaw (Some (m(''IAMToken'' \<mapsto> GString tok))))
            (c1\<lparr>data := (data c1)\<lparr>IAMToken := tok, raw := Some (m(''IAMToken'' \<mapsto> GString tok))\<rparr>\<rparr>)"
  unfolding SetIAMToken_def using assms
  by (simp add: writeRaw_def ok_def Let_def)




subsection \<open>A failed save\<close>

lemma onError_init: "onError (snd (init c)) = onError c"
  by (auto simp: init_def call_onError_def Let_def split: prod.splits option.splits)

lemma save_and_report_failed:
  assumes "fst (Save (persistor c) (pstate c) src) = Some e"
  shows "fst (save_and_report src c) = onError c e"
    and "events (snd (save_and_report src c)) = events c @ [SaveCalled src, OnErrorCalled e]"
  using assms
  by (auto simp: save_and_report_def call_onError_def Let_def split: prod.splits option.splits)

lemma read_initialised: "initOnce c \<Longrightarrow> read f c = (Returned (f (data c)), c)"
  by (simp add: read_def init_done)

text \<open>
  Claim C5. Let the lazy load have run or return, and let the mutation return. When
  \<^verbatim>\<open>Save\<close> returns an error, in \<^verbatim>\<open>write\<close> as in \<^verbatim>\<open>writeRaw\<close>, the handler is called
  with that error right after the save, the outcome of the call is the outcome of the
  handler (the operations have no error result of their own), the document keeps the
  mutation, and a read that follows returns the mutated document. In particular
  \<^verbatim>\<open>Locale()\<close> after \<^verbatim>\<open>SetLocale\<close> and \<^verbatim>\<open>IAMToken()\<close> after \<^verbatim>\<open>SetIAMToken\<close> return the
  new value whatever the save did.
\<close>

theorem save_failure_keeps_mutation:
  assumes "init c = (Returned (), c1)" and "cb (data c1) = (Returned (), d)"
  shows "(fst (Save (persistor c1) (pstate c1) (SavedData (d\<lparr>raw := Some (structs_Map d)\<rparr>))) = Some e \<longrightarrow>
            events (snd (write_full cb c)) =
              events c1 @ [SaveCalled (SavedData (d\<lparr>raw := Some (structs_Map d)\<rparr>)), OnErrorCalled e]
          \<and> fst (write_full cb c) = onError c e
          \<and> data (snd (write_full cb c)) = d\<lparr>raw := Some (structs_Map d)\<rparr>
          \<and> read f (snd (write_full cb c)) =
              (Returned (f (d\<lparr>raw := Some (structs_Map d)\<rparr>)), snd (write_full cb c)))
       \<and> (fst (Save (persistor c1) (pstate c1) (SavedRaw (raw d))) = Some e \<longrightarrow>
            events (snd (writeRaw cb c)) = events c1 @ [SaveCalled (SavedRaw (raw d)), OnErrorCalled e]
          \<and> fst (writeRaw cb c) = onError c e
          \<and> data (snd (writeRaw cb c)) = d
          \<and> read f (snd (writeRaw cb c)) = (Returned (f d), snd (writeRaw cb c)))
       \<and> fst (Locale_get (snd (SetLocale l c))) = Returned l
       \<and> fst (IAMToken_get (snd (SetIAMToken tok c))) = Returned tok"
proof -
  have oe: "onError c1 = onError c"
    using onError_init[of c] assms(1) by simp
  note W = write_full_after_init [of c c1 cb d, OF assms]
  note R = writeRaw_after_init [of c c1 cb d, OF assms]
  have a: "fst (Save (persistor c1) (pstate c1) (SavedData (d\<lparr>raw := Some (structs_Map d)\<rparr>))) = Some e \<Longrightarrow>
            events (snd (write_full cb c)) =
              events c1 @ [SaveCalled (SavedData (d\<lparr>raw := Some (structs_Map d)\<rparr>)), OnErrorCalled e]
          \<and> fst (write_full cb c) = onError c e"
    unfolding W using oe by (simp add: save_and_report_failed)
  have b: "data (snd (write_full cb c)) = d\<lparr>raw := Some (structs_Map d)\<rparr>"
    by (rule data_write_full[of c c1 cb d, OF assms])
  have c: "read f (snd (write_full cb c)) =
              (Returned (f (d\<lparr>raw := Some (structs_Map d)\<rparr>)), snd (write_full cb c))"
    by (simp add: read_initialised initOnce_write_full b)
  have a': "fst (Save (persistor c1) (pstate c1) (SavedRaw (raw d))) = Some e \<Longrightarrow>
            events (snd (writeRaw cb c)) = events c1 @ [SaveCalled (SavedRaw (raw d)), OnErrorCalled e]
          \<and> fst (writeRaw cb c) = onError c e"
    unfolding R using oe by (simp add: save_and_report_failed)
  have b': "data (snd (writeRaw cb c)) = d"
    by (rule data_writeRaw[of c c1 cb d, OF assms])
  have c': "read f (snd (writeRaw cb c)) = (Returned (f d), snd (writeRaw cb c))"
    by (simp add: read_initialised initOnce_writeRaw b')
  have l: "fst (Locale_get (snd (SetLocale l c))) = Returned l"
    unfolding Locale_get_def SetLocale_def
    by (simp add: read_initialised initOnce_write_full
        data_write_full[of c c1 _ "(data c1)\<lparr>Locale := l\<rparr>", OF assms(1)] ok_def)
  have t: "fst (IAMToken_get (snd (SetIAMToken tok c))) = Returned tok"
  proof (cases "raw (data c1)")
    case None
    then have "SetIAMToken tok c =
        (Panicked ''assignment to entry in nil map'', c1\<lparr>data := (data c1)\<lparr>IAMToken := tok\<rparr>\<rparr>)"
      using assms(1) by (simp add: SetIAMToken_def writeRaw_def Let_def)
    moreover have "initOnce c1" using init_initOnce[of c] assms(1) by simp
    ultimately show ?thesis
      by (simp add: IAMToken_get_def read_initialised)
  next
    case (Some m)
    show ?thesis
      unfolding IAMToken_get_def
      by (simp add: read_initialised SetIAMToken_after_init[OF assms(1) Some]
          initOnce_save_and_report data_save_and_report init_initOnce[of c, unfolded assms(1), simplified])
  qed
  from a b c a' b' c' l t show ?thesis by blast
qed

lemma init_failing_repo:
  "init failing_repo =
    (Returned (), failing_repo\<lparr>data := sample_data, initOnce := True, events := [LoadCalled]\<rparr>)"
  by (simp add: init_def failing_repo_def createBluemixConfigFromPersistor_def
      mem_persistor_def sample_disk_def)

theorem save_failure_keeps_mutation_witness:
  "init failing_repo =
     (Returned (), failing_repo\<lparr>data := sample_data, initOnce := True, events := [LoadCalled]\<rparr>)
   \<and> fst (Save mem_persistor (sample_disk\<lparr>save_error := Some ''disk full''\<rparr>)
          (SavedData (sample_data\<lparr>Locale := ''fr'',
             raw := Some (structs_Map (sample_data\<lparr>Locale := ''fr''\<rparr>))\<rparr>))) = Some ''disk full''
   \<and> events (snd (SetLocale ''fr'' failing_repo)) =
        [LoadCalled,
         SaveCalled (SavedData (sample_data\<lparr>Locale := ''fr'',
             raw := Some (structs_Map (sample_data\<lparr>Locale := ''fr''\<rparr>))\<rparr>)),
         OnErrorCalled ''disk full'']
   \<and> fst (SetLocale ''fr'' failing_repo) = Returned ()
   \<and> Locale sample_data = []
   \<and> fst (Locale_get (snd (SetLocale ''fr'' failing_repo))) = Returned ''fr''"
proof -
  let ?c1 = "failing_repo\<lparr>data := sample_data, initOnce := True, events := [LoadCalled]\<rparr>"
  let ?d = "sample_data\<lparr>Locale := ''fr''\<rparr>"
  have f: "persistor ?c1 = mem_persistor" "pstate ?c1 = sample_disk\<lparr>save_error := Some ''disk full''\<rparr>"
    "events ?c1 = [LoadCalled]" "data ?c1 = sample_data" "onError failing_repo = returning_handler"
    by (simp_all add: failing_repo_def createBluemixConfigFromPersistor_def)
  have h2: "(\<lambda>d. ok (d\<lparr>Locale := ''fr''\<rparr>)) (data ?c1) = (Returned (), ?d)"
    by (simp add: ok_def f)
  have h3: "fst (Save mem_persistor (sample_disk\<lparr>save_error := Some ''disk full''\<rparr>)
          (SavedData (?d\<lparr>raw := Some (structs_Map ?d)\<rparr>))) = Some ''disk full''"
    by (simp add: mem_persistor_def)
  note T = save_failure_keeps_mutation [of failing_repo ?c1 "\<lambda>d. ok (d\<lparr>Locale := ''fr''\<rparr>)" ?d
      "''disk full''" Locale "''fr''", OF init_failing_repo h2]
  from T [THEN conjunct1, rule_format, unfolded f, OF h3]
  have a: "events (snd (SetLocale ''fr'' failing_repo)) =
        [LoadCalled, SaveCalled (SavedData (?d\<lparr>raw := Some (structs_Map ?d)\<rparr>)), OnErrorCalled ''disk full'']"
    and b: "fst (SetLocale ''fr'' failing_repo) = Returned ()"
    by (simp_all add: SetLocale_def returning_handler_def)
  from T have c: "fst (Locale_get (snd (SetLocale ''fr'' failing_repo))) = Returned ''fr''"
    by blast
  have e: "Locale sample_data = []"
    by (simp add: sample_data_def NewBXConfigData_def)
  from init_failing_repo h3 a b c e show ?thesis by (intro conjI)
qed

subsection \<open>The load happens once\<close>












subsection \<open>Plugin repositories\<close>








lemma SetPluginRepo_data:
  assumes "init c = (Returned (), c1)"
  shows "PluginRepos (data (snd (SetPluginRepo e c))) = Some (slice_elems (PluginRepos (data c1)) @ [e])"
  unfolding SetPluginRepo_def
  by (simp add: data_write_full[of c c1 _ "(data c1)\<lparr>PluginRepos := Some (slice_elems (PluginRepos (data c1)) @ [e])\<rparr>", OF assms] ok_def)

lemma sample_repos:
  "slice_elems (PluginRepos (data loaded_repo)) =
     [\<lparr>PluginRepo_Name = ''foo'', PluginRepo_URL = ''u1''\<rparr>,
      \<lparr>PluginRepo_Name = ''Bar'', PluginRepo_URL = ''u2''\<rparr>]"
  by (simp add: loaded_repo_fields sample_data_def slice_elems_def)



text \<open>
  Claim C10. \<^verbatim>\<open>SetPluginRepo(entry)\<close> puts the entry at the end of the list, whatever
  the list holds. After two calls the list ends with the two entries in the order of
  the calls, and when \<^verbatim>\<open>EqualFold\<close> accepts both names against a key, at least two
  entries of the list match that key.
\<close>

theorem SetPluginRepo_appends:
  assumes "init c = (Returned (), c1)" and "repos = slice_elems (PluginRepos (data c1))"
  shows "PluginRepos (data (snd (SetPluginRepo e c))) = Some (repos @ [e])
     \<and> PluginRepos (data (snd (SetPluginRepo e2 (snd (SetPluginRepo e1 c))))) = Some (repos @ [e1, e2])
     \<and> (EqualFold (PluginRepo_Name e1) key \<and> EqualFold (PluginRepo_Name e2) key \<longrightarrow>
          2 \<le> length (filter (\<lambda>r. EqualFold (PluginRepo_Name r) key)
                 (slice_elems (PluginRepos (data (snd (SetPluginRepo e2 (snd (SetPluginRepo e1 c)))))))))"
proof -
  let ?c2 = "snd (SetPluginRepo e1 c)"
  have i2: "init ?c2 = (Returned (), ?c2)"
    by (simp add: init_done SetPluginRepo_def initOnce_write_full)
  have a: "PluginRepos (data (snd (SetPluginRepo e c))) = Some (repos @ [e])" for e
    by (simp add: SetPluginRepo_data[OF assms(1)] assms(2))
  have b: "PluginRepos (data (snd (SetPluginRepo e2 ?c2))) = Some (repos @ [e1, e2])"
    by (simp add: SetPluginRepo_data[OF i2] a slice_elems_def)
  show ?thesis
    by (simp add: a b slice_elems_def)
qed

theorem SetPluginRepo_appends_witness:
  "init sample_repo = (Returned (), loaded_repo)
   \<and> ascii_EqualFold ''baz'' ''Baz'' \<and> ascii_EqualFold ''BAZ'' ''Baz''
   \<and> PluginRepos (data (snd (SetPluginRepo \<lparr>PluginRepo_Name = ''BAZ'', PluginRepo_URL = ''u4''\<rparr>
        (snd (SetPluginRepo \<lparr>PluginRepo_Name = ''baz'', PluginRepo_URL = ''u3''\<rparr> sample_repo))))) =
       Some [\<lparr>PluginRepo_Name = ''foo'', PluginRepo_URL = ''u1''\<rparr>,
             \<lparr>PluginRepo_Name = ''Bar'', PluginRepo_URL = ''u2''\<rparr>,
             \<lparr>PluginRepo_Name = ''baz'', PluginRepo_URL = ''u3''\<rparr>,
             \<lparr>PluginRepo_Name = ''BAZ'', PluginRepo_URL = ''u4''\<rparr>]
   \<and> 2 \<le> length (filter (\<lambda>r. ascii_EqualFold (PluginRepo_Name r) ''Baz'')
        (slice_elems (PluginRepos (data (snd (SetPluginRepo \<lparr>PluginRepo_Name = ''BAZ'', PluginRepo_URL = ''u4''\<rparr>
        (snd (SetPluginRepo \<lparr>PluginRepo_Name = ''baz'', PluginRepo_URL = ''u3''\<rparr> sample_repo))))))))"
proof -
  let ?e1 = "\<lparr>PluginRepo_Name = ''baz'', PluginRepo_URL = ''u3''\<rparr>"
  let ?e2 = "\<lparr>PluginRepo_Name = ''BAZ'', PluginRepo_URL = ''u4''\<rparr>"
  have e: "ascii_EqualFold ''baz'' ''Baz''" "ascii_EqualFold ''BAZ'' ''Baz''"
    by code_simp+
  note T = SetPluginRepo_appends [OF init_sample_repo sample_repos [symmetric],
      of _ ?e2 ?e1 ascii_EqualFold "''Baz''"]
  have h: "ascii_EqualFold (PluginRepo_Name ?e1) ''Baz'' \<and> ascii_EqualFold (PluginRepo_Name ?e2) ''Baz''"
    by (simp add: e)
  have a: "PluginRepos (data (snd (SetPluginRepo ?e2 (snd (SetPluginRepo ?e1 sample_repo))))) =
       Some [\<lparr>PluginRepo_Name = ''foo'', PluginRepo_URL = ''u1''\<rparr>,
             \<lparr>PluginRepo_Name = ''Bar'', PluginRepo_URL = ''u2''\<rparr>, ?e1, ?e2]"
    using T [THEN conjunct2, THEN conjunct1] by simp
  have b: "2 \<le> length (filter (\<lambda>r. ascii_EqualFold (PluginRepo_Name r) ''Baz'')
        (slice_elems (PluginRepos (data (snd (SetPluginRepo ?e2 (snd (SetPluginRepo ?e1 sample_repo))))))))"
    using T [THEN conjunct2, THEN conjunct2, rule_format, OF h] .
  from init_sample_repo e a b show ?thesis by (intro conjI)
qed

subsection \<open>Decoding what was encoded\<close>

lemma decode_Account_value: "decode_Account eqFold (Account_value a) old = (None, a)"
  by (simp add: decode_Account_def Account_value_def decode_Account_field_def field_of_def
      decode_string_def first_error_def)

lemma decode_ResourceGroup_value: "decode_ResourceGroup eqFold (ResourceGroup_value g) old = (None, g)"
  by (simp add: decode_ResourceGroup_def ResourceGroup_value_def decode_ResourceGroup_field_def
      field_of_def decode_string_def first_error_def)

lemma decode_PluginRepo_value: "decode_PluginRepo eqFold (PluginRepo_value r) old = (None, r)"
  by (simp add: decode_PluginRepo_def PluginRepo_value_def decode_PluginRepo_field_def
      field_of_def decode_string_def first_error_def)

lemma decode_elements_values:
  "decode_elements eqFold (map PluginRepo_value rs) olds = (None, rs)"
  by (induction rs arbitrary: olds) (simp_all add: decode_PluginRepo_value first_error_def)

lemma decode_PluginRepos_value: "decode_PluginRepos eqFold (PluginRepos_value s) old = (None, s)"
  by (cases s) (simp_all add: decode_PluginRepos_def PluginRepos_value_def decode_elements_values)

lemma json_Unmarshal_data_fields:
  "json_Unmarshal_data eqFold (GMap (struct_fields d)) d0 = (None, d\<lparr>raw := raw d0\<rparr>)"
  by (simp add: json_Unmarshal_data_def struct_fields_def decode_field_def field_of_def
      known_fields_def decode_string_def decode_int_def decode_bool_def first_error_def
      decode_Account_value decode_ResourceGroup_value decode_PluginRepos_value)


lemma map_of_unique:
  assumes "(k, v) \<in> set kvs" and "\<forall>v'. (k, v') \<in> set kvs \<longrightarrow> v' = v"
  shows "map_of kvs k = Some v"
proof -
  from assms(1) obtain x where x: "map_of kvs k = Some x"
    using weak_map_of_SomeI by fastforce
  then have "(k, x) \<in> set kvs" by (rule map_of_SomeD)
  with assms(2) x show ?thesis by simp
qed

lemma map_of_rev_distinct:
  assumes "distinct (map fst xs)"
  shows "map_of (rev xs) = map_of xs"
proof
  fix k
  show "map_of (rev xs) k = map_of xs k"
  proof (cases "map_of xs k")
    case None
    then have "k \<notin> fst ` set xs" by (simp add: map_of_eq_None_iff)
    then have "map_of (rev xs) k = None" by (simp add: map_of_eq_None_iff)
    with None show ?thesis by simp
  next
    case (Some v)
    then have "(k, v) \<in> set (rev xs)" by (auto dest: map_of_SomeD)
    moreover have "distinct (map fst (rev xs))" using assms by (simp add: rev_map [symmetric])
    ultimately have "map_of (rev xs) k = Some v" by (rule map_of_is_SomeI[rotated])
    with Some show ?thesis by simp
  qed
qed

lemma distinct_struct_fields: "distinct (map fst (struct_fields d))"
  by (simp add: struct_fields_def)

lemma Unmarshal_Marshal:
  "Unmarshal eqFold (Encoding (GMap (struct_fields d))) d0 = (None, d\<lparr>raw := Some (structs_Map d)\<rparr>)"
  by (simp add: Unmarshal_def json_Unmarshal_data_fields json_Unmarshal_raw_def structs_Map_def
      map_of_rev_distinct[OF distinct_struct_fields])

lemma Unmarshal_object_raw:
  assumes "fst (Unmarshal eqFold (Encoding (GMap kvs)) d0) = None"
  shows "raw (snd (Unmarshal eqFold (Encoding (GMap kvs)) d0)) = Some (map_of (rev kvs))"
  using assms
  by (auto simp: Unmarshal_def json_Unmarshal_raw_def split: prod.splits option.splits)

text \<open>
  Claim C3. On document trees: the encoding of a typed document always succeeds, and
  decoding it, into any document, succeeds and gives back the typed document in every
  typed field; its raw map is then the map of the same fields. And whenever an object
  decodes without error, each of its keys that is bound to one value, in particular
  each key outside the typed fields, is in the raw map of the result with that value.
\<close>

theorem Unmarshal_roundtrip_and_unknown_keys:
  "(\<exists>b. Marshal d = Inr b \<and> Unmarshal eqFold b d0 = (None, d\<lparr>raw := Some (structs_Map d)\<rparr>))
   \<and> (fst (Unmarshal eqFold (Encoding (GMap kvs)) d0) = None
        \<and> (k, v) \<in> set kvs \<and> (\<forall>v'. (k, v') \<in> set kvs \<longrightarrow> v' = v) \<longrightarrow>
      (\<exists>m. raw (snd (Unmarshal eqFold (Encoding (GMap kvs)) d0)) = Some m \<and> m k = Some v))"
proof (intro conjI impI)
  show "\<exists>b. Marshal d = Inr b \<and> Unmarshal eqFold b d0 = (None, d\<lparr>raw := Some (structs_Map d)\<rparr>)"
    by (simp add: Marshal_def Unmarshal_Marshal)
next
  assume a: "fst (Unmarshal eqFold (Encoding (GMap kvs)) d0) = None
        \<and> (k, v) \<in> set kvs \<and> (\<forall>v'. (k, v') \<in> set kvs \<longrightarrow> v' = v)"
  then have "map_of (rev kvs) k = Some v"
    by (intro map_of_unique) simp_all
  with a show "\<exists>m. raw (snd (Unmarshal eqFold (Encoding (GMap kvs)) d0)) = Some m \<and> m k = Some v"
    by (simp add: Unmarshal_object_raw)
qed

theorem Unmarshal_roundtrip_and_unknown_keys_witness:
  "fst (Unmarshal ascii_EqualFold
          (Encoding (GMap [(''Locale'', GString ''fr''), (''FutureKey'', GInt 7)])) NewBXConfigData) = None
   \<and> (''FutureKey'', GInt 7) \<in> set [(''Locale'', GString ''fr''), (''FutureKey'', GInt 7)]
   \<and> ''FutureKey'' \<notin> set known_fields
   \<and> Locale (snd (Unmarshal ascii_EqualFold
          (Encoding (GMap [(''Locale'', GString ''fr''), (''FutureKey'', GInt 7)])) NewBXConfigData)) = ''fr''
   \<and> (\<exists>m. raw (snd (Unmarshal ascii_EqualFold
          (Encoding (GMap [(''Locale'', GString ''fr''), (''FutureKey'', GInt 7)])) NewBXConfigData)) = Some m
          \<and> m ''FutureKey'' = Some (GInt 7))"
proof -
  let ?kvs = "[(''Locale'', GString ''fr''), (''FutureKey'', GInt 7)]"
  have h1: "fst (Unmarshal ascii_EqualFold (Encoding (GMap ?kvs)) NewBXConfigData) = None"
    by code_simp
  have h2: "(''FutureKey'', GInt 7) \<in> set ?kvs" by simp
  have h3: "\<forall>v'. (''FutureKey'', v') \<in> set ?kvs \<longrightarrow> v' = GInt 7" by simp
  have h4: "''FutureKey'' \<notin> set known_fields" by (simp add: known_fields_def)
  have l: "Locale (snd (Unmarshal ascii_EqualFold (Encoding (GMap ?kvs)) NewBXConfigData)) = ''fr''"
    by code_simp
  note T = Unmarshal_roundtrip_and_unknown_keys [of _ ascii_EqualFold NewBXConfigData ?kvs
      "''FutureKey''" "GInt 7"]
  have c: "\<exists>m. raw (snd (Unmarshal ascii_EqualFold (Encoding (GMap ?kvs)) NewBXConfigData)) = Some m
          \<and> m ''FutureKey'' = Some (GInt 7)"
    using T [THEN conjunct2, THEN mp, OF conjI [OF h1 conjI [OF h2 h3]]] .
  from h1 h2 h4 l c show ?thesis by (intro conjI)
qed

end
